theory Spec2Isabelle
  imports Complex_Main
begin

section \<open>JavaScript values\<close>

text \<open>
  The transport layer (\<^verbatim>\<open>services/n8nService.ts\<close>) and the application shell
  (\<^verbatim>\<open>App.tsx\<close>) handle values that come out of \<^verbatim>\<open>JSON.parse\<close>. TypeScript gives them
  the type \<^verbatim>\<open>any\<close>, so the model keeps them as JSON values and writes out JavaScript's
  truthiness, property reads and the \<^verbatim>\<open>||\<close> operator on them.

  Strings are byte strings (UTF-8); every string operation the code uses (concatenation,
  \<^verbatim>\<open>includes\<close> with an ASCII pattern, comparison with the empty string) reads the same on
  UTF-8 as on JavaScript's UTF-16 strings.
\<close>

text \<open>The Number values \<^verbatim>\<open>JSON.parse\<close> can yield: a finite double (its exact
  value; the two zeros are not told apart by anything the code does) or an infinity
  (a literal beyond the range of a double).\<close>

datatype js_number = Finite rat | PosInfinity | NegInfinity

datatype json =
    JNull
  | JBool bool
  | JNum js_number
  | JStr string
  | JArr "json list"
  | JObj "(string \<times> json) list"

text \<open>A JavaScript value as the code meets it: \<^verbatim>\<open>undefined\<close> or a JSON value.\<close>

datatype js_value = Undefined | Value json

text \<open>What a \<^verbatim>\<open>throw\<close> raises and a \<^verbatim>\<open>catch\<close> receives: an \<^verbatim>\<open>Error\<close> instance with
  its message, or some other value (\<^verbatim>\<open>error instanceof Error\<close> is false).\<close>

datatype thrown = Error string | NonError

text \<open>
  Built-ins of the browser that the repository calls and does not define are parameters:
  \<^item> \<open>JSON_parse\<close>: \<^verbatim>\<open>JSON.parse\<close>, \<open>None\<close> when it raises a SyntaxError;
  \<^item> \<open>JSON_stringify\<close>: \<^verbatim>\<open>JSON.stringify\<close> on a JSON value (always a string there);
  \<^item> \<open>Error_message\<close>: the message of the error that \<^verbatim>\<open>throw new Error(v)\<close> raises for a
    value \<open>v\<close> that is not a string (the string conversion of \<open>v\<close>, or the platform's own
    TypeError message when \<open>v\<close> has no string conversion).
\<close>

record platform =
  JSON_parse :: "string \<Rightarrow> json option"
  JSON_stringify :: "json \<Rightarrow> string"
  Error_message :: "json \<Rightarrow> string"

text \<open>\<^verbatim>\<open>ToBoolean\<close>: the falsy JSON values are \<^verbatim>\<open>null\<close>, \<^verbatim>\<open>false\<close>, zero and the empty
  string; \<^verbatim>\<open>undefined\<close> is falsy.\<close>

fun truthy :: "json \<Rightarrow> bool" where
  "truthy JNull = False"
| "truthy (JBool b) = b"
| "truthy (JNum n) = (n \<noteq> Finite 0)"
| "truthy (JStr s) = (s \<noteq> [])"
| "truthy (JArr xs) = True"
| "truthy (JObj kvs) = True"

fun truthy_value :: "js_value \<Rightarrow> bool" where
  "truthy_value Undefined = False"
| "truthy_value (Value v) = truthy v"

text \<open>
  Reading a property \<^verbatim>\<open>v.k\<close>, for the property names the code reads (\<^verbatim>\<open>output\<close>,
  \<^verbatim>\<open>text\<close>, \<^verbatim>\<open>message\<close>, \<^verbatim>\<open>errorMessage\<close>, \<^verbatim>\<open>ingestionUrl\<close>, \<^verbatim>\<open>chatUrl\<close>): none of them
  is a property of a built-in prototype, so the read yields an own property of an object
  and \<^verbatim>\<open>undefined\<close> on every other value, except on \<^verbatim>\<open>null\<close>, where it raises a
  TypeError (\<open>None\<close>).
\<close>

fun get_prop :: "json \<Rightarrow> string \<Rightarrow> js_value option" where
  "get_prop JNull k = None"
| "get_prop (JObj kvs) k = Some (case map_of kvs k of None \<Rightarrow> Undefined | Some v \<Rightarrow> Value v)"
| "get_prop (JBool b) k = Some Undefined"
| "get_prop (JNum n) k = Some Undefined"
| "get_prop (JStr s) k = Some Undefined"
| "get_prop (JArr xs) k = Some Undefined"

text \<open>\<^verbatim>\<open>a || b\<close> with exceptions (\<open>None\<close>): when \<open>a\<close> raises, the expression raises; when
  \<open>a\<close> is truthy it is the result and \<open>b\<close> is not evaluated; otherwise the result is \<open>b\<close>.\<close>

fun js_or :: "js_value option \<Rightarrow> js_value option \<Rightarrow> js_value option" where
  "js_or None b = None"
| "js_or (Some a) b = (if truthy_value a then Some a else b)"

text \<open>A chain \<^verbatim>\<open>j.a || j.b || ...\<close> read as a search through an ordered list of candidate
  fields: among the properties \<open>names\<close> of \<open>j\<close>, in this order, the value of the first that
  holds a truthy value. Only an object has such properties. The lemmas \<open>or_chain2\<close> and
  \<open>or_chain3\<close> relate the chains of the code to this search.\<close>

definition first_truthy_field :: "string list \<Rightarrow> json \<Rightarrow> json option" where
  "first_truthy_field names j =
     (case j of
        JObj kvs \<Rightarrow>
          (case filter truthy (List.map_filter (map_of kvs) names) of
             [] \<Rightarrow> None
           | v # vs \<Rightarrow> Some v)
      | _ \<Rightarrow> None)"

text \<open>The specification words the search as the first candidate field that is present:
  the value of the first of the properties \<open>names\<close> that \<open>j\<close> has, whatever it holds.\<close>

definition first_present_field :: "string list \<Rightarrow> json \<Rightarrow> json option" where
  "first_present_field names j =
     (case j of
        JObj kvs \<Rightarrow>
          (case List.map_filter (map_of kvs) names of
             [] \<Rightarrow> None
           | v # vs \<Rightarrow> Some v)
      | _ \<Rightarrow> None)"

text \<open>\<^verbatim>\<open>new Error(v)\<close>: the message is \<open>v\<close> itself when \<open>v\<close> is a string, empty when \<open>v\<close> is
  \<^verbatim>\<open>undefined\<close>, and the platform's conversion otherwise.\<close>

fun new_Error :: "platform \<Rightarrow> js_value \<Rightarrow> thrown" where
  "new_Error P Undefined = Error []"
| "new_Error P (Value (JStr s)) = Error s"
| "new_Error P (Value v) = Error (Error_message P v)"

text \<open>\<^verbatim>\<open>s.includes(pattern)\<close>: \<open>pattern\<close> occurs in \<open>s\<close> as a contiguous substring.\<close>

fun str_includes :: "string \<Rightarrow> string \<Rightarrow> bool" where
  "str_includes [] pattern = (pattern = [])"
| "str_includes (c # cs) pattern =
     (take (length pattern) (c # cs) = pattern \<or> str_includes cs pattern)"

subsection \<open>Number to string\<close>

text \<open>\<^verbatim>\<open>n.toString()\<close> and \<^verbatim>\<open>`${n}`\<close> for a non-negative integer below \<open>10\<^sup>2\<^sup>1\<close> (an array
  index, an array length, a time in milliseconds): its decimal digits.\<close>

definition digit :: "nat \<Rightarrow> char" where
  "digit d = ''0123456789'' ! (d mod 10)"

fun decimal :: "nat \<Rightarrow> string" where
  "decimal n = (if n < 10 then [digit n] else decimal (n div 10) @ [digit (n mod 10)])"

declare decimal.simps [simp del]

subsection \<open>Dates\<close>

text \<open>A \<^verbatim>\<open>Date\<close> read in the local time zone: the calendar day (what \<^verbatim>\<open>getDay\<close>,
  \<^verbatim>\<open>getMonth\<close>, \<^verbatim>\<open>getDate\<close> and \<^verbatim>\<open>getFullYear\<close> return) and the time within the day.\<close>

datatype weekday = Sun | Mon | Tue | Wed | Thu | Fri | Sat

datatype month = Jan | Feb | Mar | Apr | May | Jun | Jul | Aug | Sep | Oct | Nov | Dec

record js_date =
  getDay :: weekday
  getMonth :: month
  getDate :: nat
  getFullYear :: int
  millisOfDay :: nat

fun weekday_name :: "weekday \<Rightarrow> string" where
  "weekday_name Sun = ''Sun''" | "weekday_name Mon = ''Mon''" | "weekday_name Tue = ''Tue''"
| "weekday_name Wed = ''Wed''" | "weekday_name Thu = ''Thu''" | "weekday_name Fri = ''Fri''"
| "weekday_name Sat = ''Sat''"

fun month_name :: "month \<Rightarrow> string" where
  "month_name Jan = ''Jan''" | "month_name Feb = ''Feb''" | "month_name Mar = ''Mar''"
| "month_name Apr = ''Apr''" | "month_name May = ''May''" | "month_name Jun = ''Jun''"
| "month_name Jul = ''Jul''" | "month_name Aug = ''Aug''" | "month_name Sep = ''Sep''"
| "month_name Oct = ''Oct''" | "month_name Nov = ''Nov''" | "month_name Dec = ''Dec''"

text \<open>Decimal digits padded with zeros on the left to at least \<open>w\<close> characters.\<close>

definition zero_padded :: "nat \<Rightarrow> nat \<Rightarrow> string" where
  "zero_padded w n = replicate (w - length (decimal n)) (CHR ''0'') @ decimal n"

text \<open>\<^verbatim>\<open>Date.prototype.toDateString\<close> (ECMAScript, DateString): weekday, month, day of
  the month on two digits, year on at least four digits with its sign when negative.\<close>

definition toDateString :: "js_date \<Rightarrow> string" where
  "toDateString d =
     weekday_name (getDay d) @ '' '' @ month_name (getMonth d) @ '' '' @
     zero_padded 2 (getDate d) @ '' '' @
     (if getFullYear d < 0 then ''-'' else '''') @ zero_padded 4 (nat \<bar>getFullYear d\<bar>)"

section \<open>Transport layer (services/n8nService.ts)\<close>

text \<open>A \<^verbatim>\<open>File\<close>: its name, its MIME type and its bytes; \<^verbatim>\<open>file.size\<close> is the number of
  bytes.\<close>

record js_file =
  file_name :: string
  file_type :: string
  file_data :: string

definition file_size :: "js_file \<Rightarrow> nat" where
  "file_size f = length (file_data f)"

datatype MessageRole = USER | ASSISTANT | SYSTEM

fun role_string :: "MessageRole \<Rightarrow> string" where
  "role_string USER = ''user''"
| "role_string ASSISTANT = ''assistant''"
| "role_string SYSTEM = ''system''"

record ChatAttachment =
  att_name :: string
  att_type :: string
  att_size :: nat

text \<open>\<^verbatim>\<open>ChatMessage\<close>. The field \<^verbatim>\<open>content\<close> is declared a string; an assistant message
  stores whatever \<^verbatim>\<open>sendChatMessage\<close> returned, which is a value out of \<^verbatim>\<open>JSON.parse\<close>.
  The optional fields are \<open>None\<close> when the object literal leaves them out.\<close>

record ChatMessage =
  msg_id :: string
  role :: MessageRole
  content :: js_value
  timestamp :: nat
  isError :: "bool option"
  attachments :: "ChatAttachment list option"

text \<open>\<^verbatim>\<open>FormData\<close>: the ordered list of its entries; \<^verbatim>\<open>append\<close> adds an entry at the end
  and keeps earlier entries of the same name.\<close>

datatype form_value = Text string | Blob js_file

type_synonym form_data = "(string \<times> form_value) list"

definition formData_append :: "form_data \<Rightarrow> string \<Rightarrow> form_value \<Rightarrow> form_data" where
  "formData_append fd k v = fd @ [(k, v)]"

text \<open>\<^verbatim>\<open>FormData.getAll(name)\<close>: the values of the entries of that name, in order.\<close>

definition formData_getAll :: "form_data \<Rightarrow> string \<Rightarrow> form_value list" where
  "formData_getAll fd k = map snd (filter (\<lambda>e. fst e = k) fd)"

text \<open>The binary parts of a body: its entries that hold a file, with their keys.\<close>

fun binary_parts :: "form_data \<Rightarrow> (string \<times> js_file) list" where
  "binary_parts [] = []"
| "binary_parts ((k, Blob f) # fd) = (k, f) # binary_parts fd"
| "binary_parts ((k, Text t) # fd) = binary_parts fd"

text \<open>The request \<^verbatim>\<open>fetch(url, {method, body})\<close> issues and the part of the response the
  code reads. \<^verbatim>\<open>response.text()\<close> may reject. \<^verbatim>\<open>fetch\<close> itself, a parameter of the
  operations below, may reject too (no connection).\<close>

record request =
  req_url :: js_value
  req_method :: string
  req_body :: form_data

record response =
  ok :: bool
  statusText :: string
  body_text :: "thrown + string"

text \<open>The key of the binary part of the file at \<open>index\<close>: \<^verbatim>\<open>`file_${index}`\<close>.\<close>

definition file_key :: "nat \<Rightarrow> string" where
  "file_key index = ''file_'' @ decimal index"

text \<open>The \<^verbatim>\<open>metadata\<close> object literal of lines 33-38 and 110-115.\<close>

definition metadata :: "js_file \<Rightarrow> nat \<Rightarrow> json" where
  "metadata f index =
     JObj [(''name'', JStr (file_name f)),
           (''type'', JStr (file_type f)),
           (''size'', JNum (Finite (of_nat (file_size f)))),
           (''key'', JStr (file_key index))]"

text \<open>\<^verbatim>\<open>files.forEach((file, index) => ...)\<close>: the loop over the files from \<open>index\<close> on,
  threading the form data.\<close>

fun forEach_file :: "platform \<Rightarrow> js_file list \<Rightarrow> nat \<Rightarrow> form_data \<Rightarrow> form_data" where
  "forEach_file P [] index fd = fd"
| "forEach_file P (f # rest) index fd =
     forEach_file P rest (Suc index)
       (formData_append
          (formData_append fd (file_key index) (Blob f))
          ''file_metadata'' (Text (JSON_stringify P (metadata f index))))"

text \<open>The two entries one pass of the loop appends, for the file \<open>snd e\<close> at index
  \<open>fst e\<close>.\<close>

definition file_entries :: "platform \<Rightarrow> nat \<times> js_file \<Rightarrow> form_data" where
  "file_entries P e =
     [(file_key (fst e), Blob (snd e)),
      (''file_metadata'', Text (JSON_stringify P (metadata (snd e) (fst e))))]"

text \<open>\<^verbatim>\<open>history.map(h => ({ role: h.role, content: h.content }))\<close> as a JSON value; a
  property holding \<^verbatim>\<open>undefined\<close> is left out by \<^verbatim>\<open>JSON.stringify\<close>.\<close>

definition history_entry :: "ChatMessage \<Rightarrow> json" where
  "history_entry h =
     JObj ((''role'', JStr (role_string (role h))) #
           (case content h of Undefined \<Rightarrow> [] | Value v \<Rightarrow> [(''content'', v)]))"

definition chat_sessionId :: "js_date \<Rightarrow> string" where
  "chat_sessionId now = ''session-'' @ toDateString now"

definition ingestion_sessionId :: "js_date \<Rightarrow> string" where
  "ingestion_sessionId now = ''ingestion-'' @ toDateString now"

text \<open>The form data of \<^verbatim>\<open>sendChatMessage\<close> (lines 16-47).\<close>

definition chat_formData ::
  "platform \<Rightarrow> js_date \<Rightarrow> string \<Rightarrow> ChatMessage list \<Rightarrow> js_file list \<Rightarrow> form_data" where
  "chat_formData P now message history files =
     (let sessionId = chat_sessionId now;
          fd1 = formData_append [] ''message'' (Text message);
          fd2 = formData_append fd1 ''chatInput'' (Text message);
          fd3 = formData_append fd2 ''sessionId'' (Text sessionId);
          fd4 = formData_append fd3 ''history''
                  (Text (JSON_stringify P (JArr (map history_entry history))));
          fd5 = forEach_file P files 0 fd4
      in formData_append fd5 ''file_count'' (Text (decimal (length files))))"

text \<open>\<^verbatim>\<open>textContext || ""\<close> for the optional string parameter.\<close>

definition or_empty :: "string option \<Rightarrow> string" where
  "or_empty t = (case t of None \<Rightarrow> [] | Some s \<Rightarrow> s)"

text \<open>The form data of \<^verbatim>\<open>uploadFilesToWebhook\<close> (lines 96-120).\<close>

definition ingestion_formData ::
  "platform \<Rightarrow> js_date \<Rightarrow> js_file list \<Rightarrow> string option \<Rightarrow> form_data" where
  "ingestion_formData P now files textContext =
     (let sessionId = ingestion_sessionId now;
          fd1 = formData_append [] ''message'' (Text (or_empty textContext));
          fd2 = formData_append fd1 ''chatInput'' (Text (or_empty textContext));
          fd3 = formData_append fd2 ''sessionId'' (Text sessionId);
          fd4 = forEach_file P files 0 fd3
      in formData_append fd4 ''file_count'' (Text (decimal (length files))))"

text \<open>
  Lines 56-64 and 129-136: \<^verbatim>\<open>errorDesc\<close> starts as the status text; inside the
  \<^verbatim>\<open>try\<close> the body is read, parsed and searched, and any exception there (the body
  cannot be read, it is not JSON, or it is \<^verbatim>\<open>null\<close>, whose properties cannot be read)
  leaves \<^verbatim>\<open>errorDesc\<close> as it was.
\<close>

definition errorDesc :: "platform \<Rightarrow> response \<Rightarrow> js_value" where
  "errorDesc P r =
     (case body_text r of
        Inl e \<Rightarrow> Value (JStr (statusText r))
      | Inr errorText \<Rightarrow>
          (case JSON_parse P errorText of
             None \<Rightarrow> Value (JStr (statusText r))
           | Some errorJson \<Rightarrow>
               (case js_or (get_prop errorJson ''errorMessage'')
                       (js_or (get_prop errorJson ''message'')
                          (Some (Value (JStr (JSON_stringify P errorJson))))) of
                  None \<Rightarrow> Value (JStr (statusText r))
                | Some v \<Rightarrow> v)))"

text \<open>\<^verbatim>\<open>throw new Error(errorDesc)\<close> (lines 65 and 137): what both operations reject
  with on a response \<open>r\<close> whose \<^verbatim>\<open>ok\<close> is false.\<close>

definition failure :: "platform \<Rightarrow> response \<Rightarrow> thrown" where
  "failure P r = new_Error P (errorDesc P r)"

fun is_string :: "json \<Rightarrow> bool" where
  "is_string (JStr s) = True"
| "is_string v = False"

text \<open>Lines 69-77: the reply extracted from the text of a success response; an
  exception inside the \<^verbatim>\<open>try\<close> returns the raw text.\<close>

definition chat_reply :: "platform \<Rightarrow> string \<Rightarrow> js_value" where
  "chat_reply P responseText =
     (case JSON_parse P responseText of
        None \<Rightarrow> Value (JStr responseText)
      | Some data \<Rightarrow>
          (case js_or (get_prop data ''output'')
                  (js_or (get_prop data ''text'')
                     (js_or (get_prop data ''message'')
                        (Some (Value (if is_string data then data
                                      else JStr (JSON_stringify P data)))))) of
             None \<Rightarrow> Value (JStr responseText)
           | Some v \<Rightarrow> v))"

text \<open>
  \<^verbatim>\<open>sendChatMessage\<close>. The result is the value the promise resolves to (\<open>Inr\<close>) or what
  it rejects with (\<open>Inl\<close>), paired with the requests handed to \<^verbatim>\<open>fetch\<close>, in order. The
  outer \<^verbatim>\<open>catch\<close> logs and rethrows, so it changes no result. The parameter \<^verbatim>\<open>url\<close> is
  declared a string; the guard \<^verbatim>\<open>!url\<close> is JavaScript falsiness, so any value is admitted.
\<close>

definition sendChatMessage ::
  "platform \<Rightarrow> js_date \<Rightarrow> (request \<Rightarrow> thrown + response) \<Rightarrow>
   js_value \<Rightarrow> string \<Rightarrow> ChatMessage list \<Rightarrow> js_file list \<Rightarrow>
   (thrown + js_value) \<times> request list" where
  "sendChatMessage P now fetch url message history files =
     (if \<not> truthy_value url then (Inl (Error ''Chat Webhook URL is not configured.''), [])
      else
        (let req = \<lparr>req_url = url, req_method = ''POST'',
                    req_body = chat_formData P now message history files\<rparr>
         in case fetch req of
              Inl e \<Rightarrow> (Inl e, [req])
            | Inr r \<Rightarrow>
                if \<not> ok r then (Inl (failure P r), [req])
                else (case body_text r of
                        Inl e \<Rightarrow> (Inl e, [req])
                      | Inr responseText \<Rightarrow> (Inr (chat_reply P responseText), [req]))))"

text \<open>\<^verbatim>\<open>uploadFilesToWebhook\<close>: a success response resolves without reading the body.\<close>

definition uploadFilesToWebhook ::
  "platform \<Rightarrow> js_date \<Rightarrow> (request \<Rightarrow> thrown + response) \<Rightarrow>
   js_value \<Rightarrow> js_file list \<Rightarrow> string option \<Rightarrow>
   (thrown + unit) \<times> request list" where
  "uploadFilesToWebhook P now fetch url files textContext =
     (if \<not> truthy_value url then (Inl (Error ''Ingestion Webhook URL is not configured.''), [])
      else
        (let req = \<lparr>req_url = url, req_method = ''POST'',
                    req_body = ingestion_formData P now files textContext\<rparr>
         in case fetch req of
              Inl e \<Rightarrow> (Inl e, [req])
            | Inr r \<Rightarrow>
                if \<not> ok r then (Inl (failure P r), [req])
                else (Inr (), [req])))"

section \<open>Configuration (constants.ts, App.tsx, components/SettingsModal.tsx)\<close>

text \<open>\<^verbatim>\<open>WebhookConfig\<close>. Both fields are declared strings; a loaded configuration holds
  what \<^verbatim>\<open>JSON.parse\<close> found in the store, so the fields are JavaScript values.\<close>

record WebhookConfig =
  ingestionUrl :: js_value
  chatUrl :: js_value

definition DEFAULT_CONFIG :: WebhookConfig where
  "DEFAULT_CONFIG =
     \<lparr>ingestionUrl = Value (JStr ''https://n8n.edutechnd.org/webhook/n8nchatbot''),
      chatUrl = Value (JStr ''https://n8n.edutechnd.org/webhook/n8nchatbot'')\<rparr>"

text \<open>The object literal of App.tsx lines 37-40 (SettingsModal lines 21-24), inside the
  \<^verbatim>\<open>try\<close>: \<open>None\<close> when reading a property of \<^verbatim>\<open>parsed\<close> raises.\<close>

definition config_of_parsed :: "json \<Rightarrow> WebhookConfig option" where
  "config_of_parsed parsed =
     (case js_or (get_prop parsed ''ingestionUrl'') (Some (ingestionUrl DEFAULT_CONFIG)) of
        None \<Rightarrow> None
      | Some i \<Rightarrow>
          (case js_or (get_prop parsed ''chatUrl'') (Some (chatUrl DEFAULT_CONFIG)) of
             None \<Rightarrow> None
           | Some c \<Rightarrow> Some \<lparr>ingestionUrl = i, chatUrl = c\<rparr>))"

text \<open>
  The effect of App.tsx lines 31-46 on the state \<^verbatim>\<open>config\<close>, which starts as
  \<^verbatim>\<open>DEFAULT_CONFIG\<close>. \<open>stored\<close> is the result of \<^verbatim>\<open>localStorage.getItem\<close>: \<open>None\<close> for
  \<^verbatim>\<open>null\<close> (no such key). \<^verbatim>\<open>if (stored)\<close> skips the empty string as well.
\<close>

definition App_load_config :: "platform \<Rightarrow> string option \<Rightarrow> WebhookConfig" where
  "App_load_config P stored =
     (case stored of
        None \<Rightarrow> DEFAULT_CONFIG
      | Some s \<Rightarrow>
          if s = [] then DEFAULT_CONFIG
          else (case JSON_parse P s of
                  None \<Rightarrow> DEFAULT_CONFIG
                | Some parsed \<Rightarrow>
                    (case config_of_parsed parsed of
                       None \<Rightarrow> DEFAULT_CONFIG
                     | Some c \<Rightarrow> c)))"

text \<open>The effect of SettingsModal lines 15-31 on its own state \<^verbatim>\<open>config\<close>: the same
  steps, with the \<^verbatim>\<open>else\<close> branch written out.\<close>

definition SettingsModal_load_config :: "platform \<Rightarrow> string option \<Rightarrow> WebhookConfig" where
  "SettingsModal_load_config P stored =
     (case stored of
        Some s \<Rightarrow>
          if s \<noteq> [] then
            (case JSON_parse P s of
               None \<Rightarrow> DEFAULT_CONFIG
             | Some parsed \<Rightarrow>
                 (case config_of_parsed parsed of
                    None \<Rightarrow> DEFAULT_CONFIG
                  | Some c \<Rightarrow> c))
          else DEFAULT_CONFIG
      | None \<Rightarrow> DEFAULT_CONFIG)"

section \<open>Conversation (App.tsx)\<close>

definition getN8nErrorAdvice :: "string \<Rightarrow> string option" where
  "getN8nErrorAdvice errorMsg =
     (if str_includes errorMsg ''Unused Respond to Webhook node''
      then Some (''N8N CONFIG ERROR: Open your N8N Webhook Node and change '' @ [CHR 0x27] @
                 ''Respond'' @ [CHR 0x27] @ '' to '' @ [CHR 0x27] @
                 ''Using Respond to Webhook Node'' @ [CHR 0x27] @ ''.'')
      else None)"

text \<open>The bytes between \<^verbatim>\<open>\n\n\<close> and the advice in the template of line 139, as the
  source file holds them.\<close>

definition advice_marker :: string where
  "advice_marker =
     [CHR 0xC3, CHR 0xB0, CHR 0xC5, CHR 0xB8, CHR 0xE2, CHR 0x80, CHR 0x99, CHR 0xC2, CHR 0xA1]"

text \<open>The readings of the clock during one \<^verbatim>\<open>handleSendMessage\<close>: \<^verbatim>\<open>Date.now()\<close> at
  lines 106 and 109, \<^verbatim>\<open>new Date()\<close> inside \<^verbatim>\<open>sendChatMessage\<close>, and \<^verbatim>\<open>Date.now()\<close> for
  the identifier and the timestamp of the answer.\<close>

record send_clock =
  now_user_id :: nat
  now_user_timestamp :: nat
  now_session :: js_date
  now_answer_id :: nat
  now_answer_timestamp :: nat

definition newUserMsg :: "send_clock \<Rightarrow> string \<Rightarrow> js_file list \<Rightarrow> ChatMessage" where
  "newUserMsg clk text attached =
     \<lparr>msg_id = decimal (now_user_id clk),
      role = USER,
      content = Value (JStr text),
      timestamp = now_user_timestamp clk,
      isError = None,
      attachments =
        Some (map (\<lambda>f. \<lparr>att_name = file_name f, att_type = file_type f,
                           att_size = file_size f\<rparr>) attached)\<rparr>"

definition botMsg :: "send_clock \<Rightarrow> js_value \<Rightarrow> ChatMessage" where
  "botMsg clk responseText =
     \<lparr>msg_id = decimal (now_answer_id clk + 1),
      role = ASSISTANT,
      content = responseText,
      timestamp = now_answer_timestamp clk,
      isError = None,
      attachments = None\<rparr>"

text \<open>Lines 133-140: the text shown for a failed send.\<close>

definition errorMessage_of :: "thrown \<Rightarrow> string" where
  "errorMessage_of e = (case e of Error m \<Rightarrow> m | NonError \<Rightarrow> ''Unknown error'')"

definition displayMsg :: "thrown \<Rightarrow> string" where
  "displayMsg e =
     (let errorMessage = errorMessage_of e;
          shown = ''Error: '' @ errorMessage
      in case getN8nErrorAdvice errorMessage of
           Some advice \<Rightarrow> shown @ [CHR 0x0A, CHR 0x0A] @ advice_marker @ '' '' @ advice
         | None \<Rightarrow> shown)"

definition errorMsg :: "send_clock \<Rightarrow> thrown \<Rightarrow> ChatMessage" where
  "errorMsg clk e =
     \<lparr>msg_id = decimal (now_answer_id clk + 1),
      role = ASSISTANT,
      content = Value (JStr (displayMsg e)),
      timestamp = now_answer_timestamp clk,
      isError = Some True,
      attachments = None\<rparr>"

text \<open>The updater \<^verbatim>\<open>prev => [...prev, m]\<close> handed to \<^verbatim>\<open>setMessages\<close> at lines 117, 130
  and 149.\<close>

definition append_message :: "ChatMessage \<Rightarrow> ChatMessage list \<Rightarrow> ChatMessage list" where
  "append_message m prev = prev @ [m]"

text \<open>
  \<^verbatim>\<open>handleSendMessage\<close>: the updaters it hands to \<^verbatim>\<open>setMessages\<close>, in order, and the
  requests it issued. \<open>messages\<close> is the state the handler closed over; it is the history
  sent to the webhook and does not hold the new user message. The first updater appends
  the user message (line 117); the second, handed over when the promise settles, appends
  the answer (line 130) or the error message (line 149).
\<close>

definition handleSendMessage ::
  "platform \<Rightarrow> (request \<Rightarrow> thrown + response) \<Rightarrow> send_clock \<Rightarrow> WebhookConfig \<Rightarrow>
   ChatMessage list \<Rightarrow> string \<Rightarrow> js_file list \<Rightarrow>
   (ChatMessage list \<Rightarrow> ChatMessage list) list \<times> request list" where
  "handleSendMessage P fetch clk config messages text attached =
     (let first_update = append_message (newUserMsg clk text attached);
          sent = sendChatMessage P (now_session clk) fetch (chatUrl config) text messages attached
      in case fst sent of
           Inr responseText \<Rightarrow> ([first_update, append_message (botMsg clk responseText)], snd sent)
         | Inl e \<Rightarrow> ([first_update, append_message (errorMsg clk e)], snd sent))"

text \<open>The state \<^verbatim>\<open>messages\<close> after React has applied a list of updaters to \<open>prev\<close>.\<close>

definition apply_updaters ::
  "(ChatMessage list \<Rightarrow> ChatMessage list) list \<Rightarrow> ChatMessage list \<Rightarrow> ChatMessage list" where
  "apply_updaters us prev = fold (\<lambda>u s. u s) us prev"

section \<open>Upload queue (components/FileUploader.tsx)\<close>

datatype upload_status = status_pending | status_uploading | status_success | status_error

datatype file_kind = kind_image | kind_video | kind_audio | kind_document | kind_other




section \<open>Environments for concrete runs\<close>

text \<open>
  A platform that knows the JSON texts of a finite table, each with the value it denotes:
  \<^verbatim>\<open>JSON.parse\<close> accepts exactly the texts of the table, and \<^verbatim>\<open>JSON.stringify\<close> returns
  the text the table pairs with a value. With texts in the form \<^verbatim>\<open>JSON.stringify\<close>
  prints, it agrees with a browser on the entries of the table.
\<close>

definition table_platform :: "(string \<times> json) list \<Rightarrow> platform" where
  "table_platform tbl =
     \<lparr>JSON_parse = map_of tbl,
      JSON_stringify = (\<lambda>v. case find (\<lambda>e. snd e = v) tbl of Some e \<Rightarrow> fst e | None \<Rightarrow> []),
      Error_message = (\<lambda>v. case find (\<lambda>e. snd e = v) tbl of Some e \<Rightarrow> fst e | None \<Rightarrow> [])\<rparr>"

text \<open>A \<^verbatim>\<open>fetch\<close> that settles every request the same way.\<close>

definition respond_with :: "thrown + response \<Rightarrow> request \<Rightarrow> thrown + response" where
  "respond_with answer req = answer"

text \<open>A sample reading of the clock: Tuesday, 3 November 2026.\<close>

definition sample_date :: js_date where
  "sample_date =
     \<lparr>getDay = Tue, getMonth = Nov, getDate = 3, getFullYear = 2026, millisOfDay = 0\<rparr>"

text \<open>Two files, and a platform that knows the serializations the examples need.\<close>

definition sample_files :: "js_file list" where
  "sample_files =
     [\<lparr>file_name = ''a.txt'', file_type = ''text/plain'', file_data = ''abc''\<rparr>,
      \<lparr>file_name = ''b.png'', file_type = ''image/png'', file_data = ''xy''\<rparr>]"

definition sample_platform :: platform where
  \<open>sample_platform = table_platform
     [(''{"name":"a.txt","type":"text/plain","size":3,"key":"file_0"}'',
       JObj [(''name'', JStr ''a.txt''), (''type'', JStr ''text/plain''),
             (''size'', JNum (Finite 3)), (''key'', JStr ''file_0'')]),
      (''{"name":"b.png","type":"image/png","size":2,"key":"file_1"}'',
       JObj [(''name'', JStr ''b.png''), (''type'', JStr ''image/png''),
             (''size'', JNum (Finite 2)), (''key'', JStr ''file_1'')]),
      (''[]'', JArr []),
      (''{}'', JObj []),
      (''null'', JNull),
      (''"plain"'', JStr ''plain''),
      (''{"output":"hello"}'', JObj [(''output'', JStr ''hello'')]),
      (''{"output":""}'', JObj [(''output'', JStr [])]),
      (''{"output":"","text":"hello"}'', JObj [(''output'', JStr []), (''text'', JStr ''hello'')]),
      (''{"errorMessage":"bad node config"}'', JObj [(''errorMessage'', JStr ''bad node config'')]),
      (''{"errorMessage":"","message":"Workflow failed"}'',
       JObj [(''errorMessage'', JStr []), (''message'', JStr ''Workflow failed'')]),
      (''{"errorMessage":"","message":""}'',
       JObj [(''errorMessage'', JStr []), (''message'', JStr [])]),
      (''{"message":"Unused Respond to Webhook node found in the workflow"}'',
       JObj [(''message'', JStr ''Unused Respond to Webhook node found in the workflow'')]),
      (''{"ingestionUrl":"","chatUrl":"https://my.n8n/webhook/chat"}'',
       JObj [(''ingestionUrl'', JStr []), (''chatUrl'', JStr ''https://my.n8n/webhook/chat'')])]\<close>

text \<open>Clock readings for one send, a conversation of one earlier message, and an upload
  queue of three items.\<close>

definition sample_messages :: "ChatMessage list" where
  "sample_messages =
     [\<lparr>msg_id = ''1793699990000'', role = USER, content = Value (JStr ''hello''),
       timestamp = 1793699990000, isError = None, attachments = Some []\<rparr>]"


definition sample_clock :: send_clock where
  "sample_clock =
     \<lparr>now_user_id = 1793700000000, now_user_timestamp = 1793700000000,
      now_session = sample_date,
      now_answer_id = 1793700000250, now_answer_timestamp = 1793700000250\<rparr>"



lemmas sample_defs = sample_platform_def table_platform_def sample_files_def sample_date_def
  respond_with_def

text \<open>Responses with a readable body: a failure status and a success status.\<close>

definition status_500 :: "string \<Rightarrow> response" where
  "status_500 t = \<lparr>ok = False, statusText = ''Internal Server Error'', body_text = Inr t\<rparr>"

definition status_200 :: "string \<Rightarrow> response" where
  "status_200 t = \<lparr>ok = True, statusText = ''OK'', body_text = Inr t\<rparr>"

definition sample_url :: js_value where
  "sample_url = Value (JStr ''https://n8n.example/webhook/n8nchatbot'')"

lemmas run_defs = sendChatMessage_def uploadFilesToWebhook_def failure_def errorDesc_def
  chat_reply_def status_500_def status_200_def sample_url_def sample_defs Let_def

section \<open>Request execution\<close>

text \<open>
  C5. Either submit operation, called with a falsy URL (the empty string, or no value at
  all), rejects at once with its configuration error and hands no request to \<^verbatim>\<open>fetch\<close>.
  Called with any other URL it hands exactly one request to \<^verbatim>\<open>fetch\<close>, a POST carrying
  the form data, whatever \<^verbatim>\<open>fetch\<close> answers: there is no second attempt.
\<close>

theorem submit_without_url:
  "(\<not> truthy_value url \<longrightarrow>
      sendChatMessage P now fetch url message history files
        = (Inl (Error ''Chat Webhook URL is not configured.''), []) \<and>
      uploadFilesToWebhook P now fetch url files textContext
        = (Inl (Error ''Ingestion Webhook URL is not configured.''), []))
   \<and> (truthy_value url \<longrightarrow>
      snd (sendChatMessage P now fetch url message history files)
        = [\<lparr>req_url = url, req_method = ''POST'',
            req_body = chat_formData P now message history files\<rparr>] \<and>
      snd (uploadFilesToWebhook P now fetch url files textContext)
        = [\<lparr>req_url = url, req_method = ''POST'',
            req_body = ingestion_formData P now files textContext\<rparr>])"
  by (simp add: sendChatMessage_def uploadFilesToWebhook_def Let_def split: sum.split)

theorem submit_without_url_witness:
  "sendChatMessage (table_platform []) sample_date
      (respond_with (Inl (Error ''Failed to fetch''))) (Value (JStr [])) ''hi'' [] []
     = (Inl (Error ''Chat Webhook URL is not configured.''), [])
   \<and> uploadFilesToWebhook (table_platform []) sample_date
      (respond_with (Inl (Error ''Failed to fetch''))) Undefined [] None
     = (Inl (Error ''Ingestion Webhook URL is not configured.''), [])
   \<and> length (snd (sendChatMessage (table_platform []) sample_date
      (respond_with (Inl (Error ''Failed to fetch'')))
      (Value (JStr ''https://n8n.example/webhook/chat'')) ''hi'' [] [])) = 1
   \<and> length (snd (uploadFilesToWebhook (table_platform []) sample_date
      (respond_with (Inl (Error ''Failed to fetch'')))
      (Value (JStr ''https://n8n.example/webhook/ingest'')) [] None)) = 1"
  using submit_without_url [of "Value (JStr [])" "table_platform []" sample_date
          "respond_with (Inl (Error ''Failed to fetch''))" "''hi''" "[]" "[]" None]
        submit_without_url [of Undefined "table_platform []" sample_date
          "respond_with (Inl (Error ''Failed to fetch''))" "''hi''" "[]" "[]" None]
        submit_without_url [of "Value (JStr ''https://n8n.example/webhook/chat'')"
          "table_platform []" sample_date
          "respond_with (Inl (Error ''Failed to fetch''))" "''hi''" "[]" "[]" None]
        submit_without_url [of "Value (JStr ''https://n8n.example/webhook/ingest'')"
          "table_platform []" sample_date
          "respond_with (Inl (Error ''Failed to fetch''))" "''hi''" "[]" "[]" None]
  by simp

section \<open>Request construction\<close>

subsection \<open>Decimal digits determine the number\<close>

lemma digit_inj: "a < 10 \<Longrightarrow> b < 10 \<Longrightarrow> digit a = digit b \<Longrightarrow> a = b"
proof -
  assume a: "a < 10" and b: "b < 10" and e: "digit a = digit b"
  from a have ca: "a \<in> {0,1,2,3,4,5,6,7,8,9}" by auto
  from b have cb: "b \<in> {0,1,2,3,4,5,6,7,8,9}" by auto
  from ca cb e show ?thesis unfolding digit_def by (elim insertE emptyE) simp_all
qed

lemma digit_in: "digit d \<in> set ''0123456789''"
  unfolding digit_def by (rule nth_mem) simp

lemma decimal_nonempty: "decimal n \<noteq> []"
  by (subst decimal.simps) simp

lemma decimal_digits: "set (decimal n) \<subseteq> set ''0123456789''"
proof (induction n rule: decimal.induct)
  case (1 n)
  show ?case
  proof (cases "n < 10")
    case True
    then show ?thesis using digit_in [of n] by (subst decimal.simps) simp
  next
    case False
    then show ?thesis using 1 digit_in [of "n mod 10"] by (subst decimal.simps) simp
  qed
qed

lemma decimal_inj: "decimal m = decimal n \<Longrightarrow> m = n"
proof (induction m arbitrary: n rule: decimal.induct)
  case (1 m)
  show ?case
  proof (cases "m < 10")
    case True
    then have dm: "decimal m = [digit m]" by (subst decimal.simps) simp
    show ?thesis
    proof (cases "n < 10")
      case True
      then have "decimal n = [digit n]" by (subst decimal.simps) simp
      with dm "1.prems" \<open>m < 10\<close> True show ?thesis by (simp add: digit_inj)
    next
      case False
      then have "decimal n = decimal (n div 10) @ [digit (n mod 10)]"
        by (subst decimal.simps) simp
      with dm "1.prems" decimal_nonempty [of "n div 10"] show ?thesis by simp
    qed
  next
    case False
    then have dm: "decimal m = decimal (m div 10) @ [digit (m mod 10)]"
      by (subst decimal.simps) simp
    show ?thesis
    proof (cases "n < 10")
      case True
      then have "decimal n = [digit n]" by (subst decimal.simps) simp
      with dm "1.prems" decimal_nonempty [of "m div 10"] show ?thesis by simp
    next
      case nf: False
      then have dn: "decimal n = decimal (n div 10) @ [digit (n mod 10)]"
        by (subst decimal.simps) simp
      from dm dn "1.prems" have q: "decimal (m div 10) = decimal (n div 10)"
        and r: "digit (m mod 10) = digit (n mod 10)" by simp_all
      from "1.IH" [OF False q] have "m div 10 = n div 10" .
      moreover from r have "m mod 10 = n mod 10" by (intro digit_inj) simp_all
      ultimately show ?thesis by (metis div_mult_mod_eq)
    qed
  qed
qed

lemma file_key_inj: "file_key i = file_key j \<Longrightarrow> i = j"
  by (simp add: file_key_def decimal_inj)

lemma file_key_not_metadata: "file_key i \<noteq> ''file_metadata''"
proof
  assume "file_key i = ''file_metadata''"
  then have "decimal i = ''metadata''" by (simp add: file_key_def)
  with decimal_digits [of i] show False by auto
qed

lemma file_key_not_count: "file_key i \<noteq> ''file_count''"
proof
  assume "file_key i = ''file_count''"
  then have "decimal i = ''count''" by (simp add: file_key_def)
  with decimal_digits [of i] show False by auto
qed

lemma distinct_file_keys: "distinct (map file_key [i..<j])"
  by (simp add: distinct_map inj_on_def file_key_inj)


subsection \<open>The entries of the form data\<close>

lemma forEach_file_closed:
  "forEach_file P fs i fd = fd @ concat (map (file_entries P) (enumerate i fs))"
  by (induction fs arbitrary: i fd) (simp_all add: formData_append_def file_entries_def)

lemma binary_parts_append: "binary_parts (xs @ ys) = binary_parts xs @ binary_parts ys"
  by (induction xs rule: binary_parts.induct) simp_all

lemma getAll_append:
  "formData_getAll (xs @ ys) k = formData_getAll xs k @ formData_getAll ys k"
  by (simp add: formData_getAll_def)

lemma getAll_Nil: "formData_getAll [] k = []"
  by (simp add: formData_getAll_def)

lemma getAll_Cons:
  "formData_getAll (e # fd) k = (if fst e = k then snd e # formData_getAll fd k
                                 else formData_getAll fd k)"
  by (simp add: formData_getAll_def)

lemma binary_parts_files:
  "binary_parts (concat (map (file_entries P) (enumerate i fs)))
     = map (\<lambda>e. (file_key (fst e), snd e)) (enumerate i fs)"
  by (induction fs arbitrary: i) (simp_all add: file_entries_def)

lemma getAll_metadata_files:
  "formData_getAll (concat (map (file_entries P) (enumerate i fs))) ''file_metadata''
     = map (\<lambda>e. Text (JSON_stringify P (metadata (snd e) (fst e)))) (enumerate i fs)"
proof (induction fs arbitrary: i)
  case Nil
  show ?case by (simp add: formData_getAll_def)
next
  case (Cons f fs)
  have "formData_getAll (file_entries P (i, f)) ''file_metadata''
          = [Text (JSON_stringify P (metadata f i))]"
    using file_key_not_metadata [of i] by (simp add: formData_getAll_def file_entries_def)
  with Cons show ?case by (simp add: getAll_append)
qed

lemma getAll_count_files:
  "formData_getAll (concat (map (file_entries P) (enumerate i fs))) ''file_count'' = []"
proof (induction fs arbitrary: i)
  case Nil
  show ?case by (simp add: formData_getAll_def)
next
  case (Cons f fs)
  have "formData_getAll (file_entries P (i, f)) ''file_count'' = []"
    using file_key_not_count [of i] by (simp add: formData_getAll_def file_entries_def)
  with Cons show ?case by (simp add: getAll_append)
qed

lemma chat_formData_closed:
  "chat_formData P now message history files =
     [(''message'', Text message), (''chatInput'', Text message),
      (''sessionId'', Text (chat_sessionId now)),
      (''history'', Text (JSON_stringify P (JArr (map history_entry history))))]
     @ concat (map (file_entries P) (enumerate 0 files))
     @ [(''file_count'', Text (decimal (length files)))]"
  by (simp add: chat_formData_def Let_def formData_append_def forEach_file_closed)

lemma ingestion_formData_closed:
  "ingestion_formData P now files textContext =
     [(''message'', Text (or_empty textContext)), (''chatInput'', Text (or_empty textContext)),
      (''sessionId'', Text (ingestion_sessionId now))]
     @ concat (map (file_entries P) (enumerate 0 files))
     @ [(''file_count'', Text (decimal (length files)))]"
  by (simp add: ingestion_formData_def Let_def formData_append_def forEach_file_closed)

lemma enumerate_keys:
  "map (\<lambda>e. (file_key (fst e), snd e)) (enumerate i fs)
     = zip (map file_key [i..<i + length fs]) fs"
  by (simp add: enumerate_eq_zip zip_map1 case_prod_beta)


lemma formData_files:
  assumes "body = pre @ concat (map (file_entries P) (enumerate 0 files))
                  @ [(''file_count'', Text (decimal (length files)))]"
    and "binary_parts pre = []"
    and "formData_getAll pre ''file_metadata'' = []"
    and "formData_getAll pre ''file_count'' = []"
  shows "binary_parts body = zip (map file_key [0..<length files]) files"
    and "formData_getAll body ''file_metadata''
           = map (\<lambda>e. Text (JSON_stringify P (metadata (snd e) (fst e)))) (enumerate 0 files)"
    and "formData_getAll body ''file_count'' = [Text (decimal (length files))]"
  using assms
  by (simp_all add: binary_parts_append binary_parts_files enumerate_keys
        getAll_append getAll_Cons getAll_Nil getAll_metadata_files getAll_count_files)

lemma chat_formData_files:
  "binary_parts (chat_formData P now message history files)
     = zip (map file_key [0..<length files]) files"
  "formData_getAll (chat_formData P now message history files) ''file_metadata''
     = map (\<lambda>e. Text (JSON_stringify P (metadata (snd e) (fst e)))) (enumerate 0 files)"
  "formData_getAll (chat_formData P now message history files) ''file_count''
     = [Text (decimal (length files))]"
  by (rule formData_files [OF chat_formData_closed]; simp add: getAll_Cons getAll_Nil)+

lemma ingestion_formData_files:
  "binary_parts (ingestion_formData P now files textContext)
     = zip (map file_key [0..<length files]) files"
  "formData_getAll (ingestion_formData P now files textContext) ''file_metadata''
     = map (\<lambda>e. Text (JSON_stringify P (metadata (snd e) (fst e)))) (enumerate 0 files)"
  "formData_getAll (ingestion_formData P now files textContext) ''file_count''
     = [Text (decimal (length files))]"
  by (rule formData_files [OF ingestion_formData_closed]; simp add: getAll_Cons getAll_Nil)+

lemma length_file_entries:
  "length (concat (map (file_entries P) (enumerate i fs))) = 2 * length fs"
  by (induction fs arbitrary: i) (simp_all add: file_entries_def)

lemma metadata_keys:
  "map (\<lambda>e. get_prop (metadata (snd e) (fst e)) ''key'') (enumerate 0 files)
     = map (\<lambda>p. Some (Value (JStr (fst p)))) (zip (map file_key [0..<length files]) files)"
  by (simp add: enumerate_eq_zip zip_map1 metadata_def case_prod_beta)

text \<open>
  C3. For every list of \<open>N\<close> files (also the empty one), in the body of either operation:
  the binary parts are the files in selection order, the one at index \<open>i\<close> under the key
  \<^verbatim>\<open>file_i\<close>, so there are \<open>N\<close> of them and their keys are pairwise distinct; the entries
  named \<^verbatim>\<open>file_metadata\<close> are \<open>N\<close> texts, the serializations of the metadata objects in the
  same order, and the \<^verbatim>\<open>key\<close> fields of these objects are, position by position, the keys
  of the binary parts; and there is one entry \<^verbatim>\<open>file_count\<close>, the decimal digits of \<open>N\<close>.
  The body has no other entries than these \<open>2N + 1\<close> and the text fields before them (five
  for a chat call, four for an ingestion call, the count included).
\<close>

theorem multipart_file_parts:
  "(\<forall>body \<in> {chat_formData P now message history files,
             ingestion_formData P now files textContext}.
      binary_parts body = zip (map file_key [0..<length files]) files
    \<and> length (binary_parts body) = length files
    \<and> distinct (map fst (binary_parts body))
    \<and> formData_getAll body ''file_metadata''
        = map (\<lambda>e. Text (JSON_stringify P (metadata (snd e) (fst e)))) (enumerate 0 files)
    \<and> length (formData_getAll body ''file_metadata'') = length files
    \<and> map (\<lambda>e. get_prop (metadata (snd e) (fst e)) ''key'') (enumerate 0 files)
        = map (\<lambda>p. Some (Value (JStr (fst p)))) (binary_parts body)
    \<and> formData_getAll body ''file_count'' = [Text (decimal (length files))])
   \<and> length (chat_formData P now message history files) = 2 * length files + 5
   \<and> length (ingestion_formData P now files textContext) = 2 * length files + 4"
proof (intro conjI)
  show "\<forall>body \<in> {chat_formData P now message history files,
             ingestion_formData P now files textContext}.
      binary_parts body = zip (map file_key [0..<length files]) files
    \<and> length (binary_parts body) = length files
    \<and> distinct (map fst (binary_parts body))
    \<and> formData_getAll body ''file_metadata''
        = map (\<lambda>e. Text (JSON_stringify P (metadata (snd e) (fst e)))) (enumerate 0 files)
    \<and> length (formData_getAll body ''file_metadata'') = length files
    \<and> map (\<lambda>e. get_prop (metadata (snd e) (fst e)) ''key'') (enumerate 0 files)
        = map (\<lambda>p. Some (Value (JStr (fst p)))) (binary_parts body)
    \<and> formData_getAll body ''file_count'' = [Text (decimal (length files))]"
    by (simp add: chat_formData_files ingestion_formData_files metadata_keys distinct_file_keys)
  show "length (chat_formData P now message history files) = 2 * length files + 5"
    by (simp add: chat_formData_closed length_file_entries)
  show "length (ingestion_formData P now files textContext) = 2 * length files + 4"
    by (simp add: ingestion_formData_closed length_file_entries)
qed

theorem multipart_file_parts_witness:
  \<open>binary_parts (ingestion_formData sample_platform sample_date sample_files None)
     = [(''file_0'', \<lparr>file_name = ''a.txt'', file_type = ''text/plain'', file_data = ''abc''\<rparr>),
        (''file_1'', \<lparr>file_name = ''b.png'', file_type = ''image/png'', file_data = ''xy''\<rparr>)]
   \<and> formData_getAll (ingestion_formData sample_platform sample_date sample_files None)
        ''file_metadata''
     = [Text ''{"name":"a.txt","type":"text/plain","size":3,"key":"file_0"}'',
        Text ''{"name":"b.png","type":"image/png","size":2,"key":"file_1"}'']
   \<and> formData_getAll (ingestion_formData sample_platform sample_date sample_files None)
        ''file_count'' = [Text ''2'']
   \<and> formData_getAll (chat_formData sample_platform sample_date ''hi'' [] [])
        ''file_count'' = [Text ''0'']\<close>
  using multipart_file_parts [of sample_platform sample_date "''hi''" "[]" sample_files None]
        multipart_file_parts [of sample_platform sample_date "''hi''" "[]" "[]" None]
  by (simp add: sample_defs file_key_def decimal.simps metadata_def file_size_def
        enumerate_eq_zip digit_def)


text \<open>
  C2, as the code has it. For every attached file, at index \<open>i\<close>, in the body of either
  operation: the \<open>i\<close>-th binary part holds that file, and the \<open>i\<close>-th metadata part is the
  JSON serialization of an object with exactly four fields: \<^verbatim>\<open>name\<close>, \<^verbatim>\<open>type\<close> (the MIME
  type), \<^verbatim>\<open>size\<close> (the size in bytes) and \<^verbatim>\<open>key\<close>, the key of that binary part.
\<close>

theorem file_metadata_part:
  "\<forall>body \<in> {chat_formData P now message history files,
             ingestion_formData P now files textContext}.
     \<forall>i < length files.
        binary_parts body ! i = (file_key i, files ! i)
      \<and> formData_getAll body ''file_metadata'' ! i
          = Text (JSON_stringify P
              (JObj [(''name'', JStr (file_name (files ! i))),
                     (''type'', JStr (file_type (files ! i))),
                     (''size'', JNum (Finite (of_nat (file_size (files ! i))))),
                     (''key'', JStr (fst (binary_parts body ! i)))]))"
  by (simp add: chat_formData_files ingestion_formData_files enumerate_eq_zip metadata_def)

theorem file_metadata_part_witness:
  \<open>(1::nat) < length sample_files
   \<and> binary_parts (chat_formData sample_platform sample_date ''hi'' [] sample_files) ! 1
       = (''file_1'', \<lparr>file_name = ''b.png'', file_type = ''image/png'', file_data = ''xy''\<rparr>)
   \<and> formData_getAll (chat_formData sample_platform sample_date ''hi'' [] sample_files)
         ''file_metadata'' ! 1
       = Text ''{"name":"b.png","type":"image/png","size":2,"key":"file_1"}''
   \<and> formData_getAll (ingestion_formData sample_platform sample_date sample_files None)
         ''file_metadata'' ! 1
       = Text ''{"name":"b.png","type":"image/png","size":2,"key":"file_1"}''\<close>
  using file_metadata_part [of sample_platform sample_date "''hi''" "[]" sample_files None]
  by (simp add: sample_defs file_key_def decimal.simps file_size_def digit_def)


text \<open>
  C2 as stated fails on the names of two fields: the serialized object has the fields
  \<^verbatim>\<open>type\<close> and \<^verbatim>\<open>size\<close>, and no field \<^verbatim>\<open>mimeType\<close> or \<^verbatim>\<open>sizeBytes\<close>.
\<close>

theorem file_metadata_part_counterexample:
  \<open>formData_getAll (chat_formData sample_platform sample_date ''hi'' [] sample_files)
       ''file_metadata'' ! 0
     = Text (JSON_stringify sample_platform (metadata (sample_files ! 0) 0))
   \<and> metadata (sample_files ! 0) 0
     = JObj [(''name'', JStr ''a.txt''), (''type'', JStr ''text/plain''),
             (''size'', JNum (Finite 3)), (''key'', JStr ''file_0'')]
   \<and> get_prop (metadata (sample_files ! 0) 0) ''mimeType'' = Some Undefined
   \<and> get_prop (metadata (sample_files ! 0) 0) ''sizeBytes'' = Some Undefined
   \<and> JSON_stringify sample_platform (metadata (sample_files ! 0) 0)
     = ''{"name":"a.txt","type":"text/plain","size":3,"key":"file_0"}''\<close>
  by (simp add: chat_formData_files enumerate_eq_zip metadata_def sample_defs file_key_def
        decimal.simps digit_def file_size_def)

section \<open>Session identifier\<close>

lemma getAll_other_files:
  assumes "k \<noteq> ''file_metadata''" and "\<And>j. file_key j \<noteq> k"
  shows "formData_getAll (concat (map (file_entries P) (enumerate i fs))) k = []"
proof (induction fs arbitrary: i)
  case Nil
  show ?case by (simp add: getAll_Nil)
next
  case (Cons f fs)
  have "formData_getAll (file_entries P (i, f)) k = []"
    using assms by (simp add: getAll_Cons getAll_Nil file_entries_def)
  with Cons show ?case by (simp add: getAll_append)
qed

lemma file_key_not_sessionId: "file_key j \<noteq> ''sessionId''"
  by (simp add: file_key_def)

lemma chat_formData_sessionId:
  "formData_getAll (chat_formData P now message history files) ''sessionId''
     = [Text (chat_sessionId now)]"
  by (simp add: chat_formData_closed getAll_append getAll_Cons getAll_Nil
        getAll_other_files file_key_not_sessionId)

lemma ingestion_formData_sessionId:
  "formData_getAll (ingestion_formData P now files textContext) ''sessionId''
     = [Text (ingestion_sessionId now)]"
  by (simp add: ingestion_formData_closed getAll_append getAll_Cons getAll_Nil
        getAll_other_files file_key_not_sessionId)

lemma toDateString_same_day:
  assumes "getDay d = getDay d'" "getMonth d = getMonth d'" "getDate d = getDate d'"
    "getFullYear d = getFullYear d'"
  shows "toDateString d = toDateString d'"
  using assms by (simp add: toDateString_def)

text \<open>
  C6. The session identifier of a body is its one entry \<^verbatim>\<open>sessionId\<close>: the operation's
  prefix followed by the date string of the day. Two calls of the same operation on the
  same calendar day (same weekday, month, day of the month and year; any time of day, any
  message and files) carry the same identifier, and on every day the identifier of a chat
  call differs from that of an ingestion call.
\<close>

theorem session_identifier:
  "(getDay d = getDay d' \<and> getMonth d = getMonth d' \<and> getDate d = getDate d' \<and>
    getFullYear d = getFullYear d' \<longrightarrow>
      formData_getAll (chat_formData P d message history files) ''sessionId''
        = formData_getAll (chat_formData P d' message' history' files') ''sessionId''
    \<and> formData_getAll (ingestion_formData P d files textContext) ''sessionId''
        = formData_getAll (ingestion_formData P d' files' textContext') ''sessionId'')
   \<and> formData_getAll (chat_formData P d message history files) ''sessionId''
        = [Text (''session-'' @ toDateString d)]
   \<and> formData_getAll (ingestion_formData P d files textContext) ''sessionId''
        = [Text (''ingestion-'' @ toDateString d)]
   \<and> formData_getAll (chat_formData P d message history files) ''sessionId''
        \<noteq> formData_getAll (ingestion_formData P d files' textContext) ''sessionId''"
  using toDateString_same_day [of d d']
  by (simp add: chat_formData_sessionId ingestion_formData_sessionId chat_sessionId_def
        ingestion_sessionId_def)


theorem session_identifier_witness:
  "formData_getAll (chat_formData sample_platform sample_date ''hi'' [] []) ''sessionId''
     = [Text ''session-Tue Nov 03 2026'']
   \<and> formData_getAll (chat_formData sample_platform (sample_date\<lparr>millisOfDay := 86399999\<rparr>)
         ''again'' [] sample_files) ''sessionId''
     = [Text ''session-Tue Nov 03 2026'']
   \<and> formData_getAll (ingestion_formData sample_platform sample_date sample_files None) ''sessionId''
     = [Text ''ingestion-Tue Nov 03 2026'']
   \<and> formData_getAll (ingestion_formData sample_platform (sample_date\<lparr>millisOfDay := 86399999\<rparr>)
         [] (Some ''notes'')) ''sessionId''
     = [Text ''ingestion-Tue Nov 03 2026'']"
  using session_identifier [where d = sample_date
          and d' = "sample_date\<lparr>millisOfDay := 86399999\<rparr>" and P = sample_platform
          and message = "''hi''" and history = "[]" and files = "[]"
          and message' = "''again''" and history' = "[]" and files' = sample_files
          and textContext = "Some ''notes''" and textContext' = None]
        session_identifier [where d = sample_date
          and d' = "sample_date\<lparr>millisOfDay := 86399999\<rparr>" and P = sample_platform
          and message = "''hi''" and history = "[]" and files = sample_files
          and message' = "''again''" and history' = "[]" and files' = "[]"
          and textContext = None and textContext' = "Some ''notes''"]
  by (simp add: chat_formData_sessionId ingestion_formData_sessionId chat_sessionId_def
        ingestion_sessionId_def sample_date_def toDateString_def zero_padded_def
        decimal.simps digit_def)


section \<open>Response normalization\<close>

lemma get_prop_not_null: "j \<noteq> JNull \<Longrightarrow> \<exists>v. get_prop j k = Some v"
  by (cases j) simp_all

lemma or_chain2:
  assumes "j \<noteq> JNull"
  shows "js_or (get_prop j a) (js_or (get_prop j b) (Some (Value d)))
           = Some (Value (case first_truthy_field [a, b] j of Some v \<Rightarrow> v | None \<Rightarrow> d))"
  using assms
  by (cases j)
     (auto simp: first_truthy_field_def List.map_filter_def split: option.splits)

lemma or_chain3:
  assumes "j \<noteq> JNull"
  shows "js_or (get_prop j a) (js_or (get_prop j b) (js_or (get_prop j c) (Some (Value d))))
           = Some (Value (case first_truthy_field [a, b, c] j of Some v \<Rightarrow> v | None \<Rightarrow> d))"
  using assms
  by (cases j)
     (auto simp: first_truthy_field_def List.map_filter_def split: option.splits)

lemma errorDesc_parsed:
  assumes "body_text r = Inr t" "JSON_parse P t = Some j" "j \<noteq> JNull"
  shows "errorDesc P r =
           Value (case first_truthy_field [''errorMessage'', ''message''] j of
                    Some v \<Rightarrow> v | None \<Rightarrow> JStr (JSON_stringify P j))"
  using assms by (simp add: errorDesc_def or_chain2)

lemma errorDesc_fallback:
  "body_text r = Inl e \<Longrightarrow> errorDesc P r = Value (JStr (statusText r))"
  "body_text r = Inr t \<Longrightarrow> JSON_parse P t = None \<Longrightarrow> errorDesc P r = Value (JStr (statusText r))"
  "body_text r = Inr t \<Longrightarrow> JSON_parse P t = Some JNull \<Longrightarrow> errorDesc P r = Value (JStr (statusText r))"
  by (simp_all add: errorDesc_def)

lemma chat_reply_parsed:
  assumes "JSON_parse P t = Some data" "data \<noteq> JNull"
  shows "chat_reply P t =
           Value (case first_truthy_field [''output'', ''text'', ''message''] data of
                    Some v \<Rightarrow> v
                  | None \<Rightarrow> if is_string data then data else JStr (JSON_stringify P data))"
  using assms by (simp add: chat_reply_def or_chain3)

lemma chat_reply_fallback:
  "JSON_parse P t = None \<Longrightarrow> chat_reply P t = Value (JStr t)"
  "JSON_parse P t = Some JNull \<Longrightarrow> chat_reply P t = Value (JStr t)"
  by (simp_all add: chat_reply_def)

lemma sendChatMessage_not_ok:
  assumes "truthy_value url" "\<not> ok r"
    "fetch \<lparr>req_url = url, req_method = ''POST'',
            req_body = chat_formData P now message history files\<rparr> = Inr r"
  shows "fst (sendChatMessage P now fetch url message history files) = Inl (failure P r)"
  using assms by (simp add: sendChatMessage_def Let_def)

lemma uploadFilesToWebhook_not_ok:
  assumes "truthy_value url" "\<not> ok r"
    "fetch \<lparr>req_url = url, req_method = ''POST'',
            req_body = ingestion_formData P now files textContext\<rparr> = Inr r"
  shows "fst (uploadFilesToWebhook P now fetch url files textContext) = Inl (failure P r)"
  using assms by (simp add: uploadFilesToWebhook_def Let_def)

lemma sendChatMessage_ok:
  assumes "truthy_value url" "ok r" "body_text r = Inr t"
    "fetch \<lparr>req_url = url, req_method = ''POST'',
            req_body = chat_formData P now message history files\<rparr> = Inr r"
  shows "fst (sendChatMessage P now fetch url message history files) = Inr (chat_reply P t)"
  using assms by (simp add: sendChatMessage_def Let_def)

text \<open>
  C1, as the code has it. On a response whose status is not a success, both operations
  reject with \<open>failure P r\<close>. When the body is read and parses to a JSON value other than
  \<^verbatim>\<open>null\<close>, the message is the first truthy value among the fields \<^verbatim>\<open>errorMessage\<close>, then
  \<^verbatim>\<open>message\<close> (the string itself when it is a string, its string conversion otherwise), and,
  when neither holds a truthy value, the JSON serialization of the parsed value. The message
  is the status text only when the body cannot be read, is not JSON, or is \<^verbatim>\<open>null\<close>.
\<close>

theorem non_success_message:
  assumes "truthy_value url" and "\<not> ok r"
    and "fetch \<lparr>req_url = url, req_method = ''POST'',
              req_body = chat_formData P now message history files\<rparr> = Inr r"
    and "fetch' \<lparr>req_url = url, req_method = ''POST'',
              req_body = ingestion_formData P now files textContext\<rparr> = Inr r"
  shows "fst (sendChatMessage P now fetch url message history files) = Inl (failure P r)
     \<and> fst (uploadFilesToWebhook P now fetch' url files textContext) = Inl (failure P r)
     \<and> (\<forall>t j. body_text r = Inr t \<and> JSON_parse P t = Some j \<and> j \<noteq> JNull \<longrightarrow>
           failure P r =
             (case first_truthy_field [''errorMessage'', ''message''] j of
                Some (JStr s) \<Rightarrow> Error s
              | Some v \<Rightarrow> Error (Error_message P v)
              | None \<Rightarrow> Error (JSON_stringify P j)))
     \<and> ((\<forall>t. body_text r = Inr t \<longrightarrow> JSON_parse P t = None \<or> JSON_parse P t = Some JNull) \<longrightarrow>
           failure P r = Error (statusText r))"
proof (intro conjI allI impI)
  show "fst (sendChatMessage P now fetch url message history files) = Inl (failure P r)"
    using assms(1-3) by (rule sendChatMessage_not_ok)
  show "fst (uploadFilesToWebhook P now fetch' url files textContext) = Inl (failure P r)"
    using assms(1,2,4) by (rule uploadFilesToWebhook_not_ok)
next
  fix t j
  assume "body_text r = Inr t \<and> JSON_parse P t = Some j \<and> j \<noteq> JNull"
  then have "errorDesc P r =
           Value (case first_truthy_field [''errorMessage'', ''message''] j of
                    Some v \<Rightarrow> v | None \<Rightarrow> JStr (JSON_stringify P j))"
    by (simp add: errorDesc_parsed)
  then show "failure P r =
             (case first_truthy_field [''errorMessage'', ''message''] j of
                Some (JStr s) \<Rightarrow> Error s
              | Some v \<Rightarrow> Error (Error_message P v)
              | None \<Rightarrow> Error (JSON_stringify P j))"
    by (simp add: failure_def split: option.splits json.splits)
next
  assume a: "\<forall>t. body_text r = Inr t \<longrightarrow> JSON_parse P t = None \<or> JSON_parse P t = Some JNull"
  show "failure P r = Error (statusText r)"
  proof (cases "body_text r")
    case (Inl e)
    then show ?thesis by (simp add: failure_def errorDesc_fallback)
  next
    case (Inr t)
    with a have "JSON_parse P t = None \<or> JSON_parse P t = Some JNull" by simp
    with Inr show ?thesis by (auto simp: failure_def errorDesc_fallback)
  qed
qed


theorem non_success_message_witness:
  \<open>fst (sendChatMessage sample_platform sample_date
          (respond_with (Inr (status_500 ''{"errorMessage":"bad node config"}'')))
          sample_url ''hi'' [] [])
     = Inl (Error ''bad node config'')
   \<and> fst (uploadFilesToWebhook sample_platform sample_date
          (respond_with (Inr (status_500 ''{"errorMessage":"bad node config"}'')))
          sample_url [] None)
     = Inl (Error ''bad node config'')
   \<and> fst (sendChatMessage sample_platform sample_date
          (respond_with (Inr (status_500 ''{"errorMessage":"","message":"Workflow failed"}'')))
          sample_url ''hi'' [] [])
     = Inl (Error ''Workflow failed'')
   \<and> fst (sendChatMessage sample_platform sample_date
          (respond_with (Inr (status_500 ''Internal Server Error'')))
          sample_url ''hi'' [] [])
     = Inl (Error ''Internal Server Error'')\<close>
proof -
  have u: "truthy_value sample_url" by (simp add: sample_url_def)
  have n: "\<not> ok (status_500 t)" for t by (simp add: status_500_def)
  have f: "respond_with (Inr r) q = Inr r" for r q by (simp add: respond_with_def)
  note a = non_success_message [where url = sample_url
      and r = \<open>status_500 ''{"errorMessage":"bad node config"}''\<close>
      and fetch = \<open>respond_with (Inr (status_500 ''{"errorMessage":"bad node config"}''))\<close>
      and fetch' = \<open>respond_with (Inr (status_500 ''{"errorMessage":"bad node config"}''))\<close>
      and P = sample_platform and now = sample_date and message = "''hi''"
      and history = "[]" and files = "[]" and textContext = None, OF u n f f]
  note b = non_success_message [where url = sample_url
      and r = \<open>status_500 ''{"errorMessage":"","message":"Workflow failed"}''\<close>
      and fetch = \<open>respond_with
          (Inr (status_500 ''{"errorMessage":"","message":"Workflow failed"}''))\<close>
      and fetch' = \<open>respond_with
          (Inr (status_500 ''{"errorMessage":"","message":"Workflow failed"}''))\<close>
      and P = sample_platform and now = sample_date and message = "''hi''"
      and history = "[]" and files = "[]" and textContext = None, OF u n f f]
  note c = non_success_message [where url = sample_url
      and r = \<open>status_500 ''Internal Server Error''\<close>
      and fetch = \<open>respond_with (Inr (status_500 ''Internal Server Error''))\<close>
      and fetch' = \<open>respond_with (Inr (status_500 ''Internal Server Error''))\<close>
      and P = sample_platform and now = sample_date and message = "''hi''"
      and history = "[]" and files = "[]" and textContext = None, OF u n f f]
  from a b c show ?thesis
    by (simp add: status_500_def sample_platform_def table_platform_def first_truthy_field_def
          List.map_filter_def)
qed

text \<open>
  C1 as stated fails: a failure response whose body \<^verbatim>\<open>{}\<close> parses and has neither
  field is reported as \<^verbatim>\<open>{}\<close>, the serialization of the body, not as the status text.
\<close>

theorem non_success_message_counterexample:
  \<open>JSON_parse sample_platform ''{}'' = Some (JObj [])
   \<and> get_prop (JObj []) ''errorMessage'' = Some Undefined
   \<and> get_prop (JObj []) ''message'' = Some Undefined
   \<and> fst (sendChatMessage sample_platform sample_date
          (respond_with (Inr (status_500 ''{}''))) sample_url ''hi'' [] [])
       = Inl (Error ''{}'')
   \<and> fst (uploadFilesToWebhook sample_platform sample_date
          (respond_with (Inr (status_500 ''{}''))) sample_url [] None)
       = Inl (Error ''{}'')
   \<and> Error ''{}'' \<noteq> Error (statusText (status_500 ''{}''))\<close>
  by (simp add: run_defs)


text \<open>
  C4, as the code has it. On a success response whose body is read as the text \<open>t\<close>,
  \<^verbatim>\<open>sendChatMessage\<close> resolves, never rejects, with \<open>chat_reply P t\<close>: the raw text when
  \<open>t\<close> is not JSON; for an object, the value of the first of \<^verbatim>\<open>output\<close>, \<^verbatim>\<open>text\<close>,
  \<^verbatim>\<open>message\<close> that holds a truthy value and, when none does, the JSON serialization of the
  object; for a JSON string, that string.
\<close>

theorem success_reply:
  assumes "truthy_value url" and "ok r" and "body_text r = Inr t"
    and "fetch \<lparr>req_url = url, req_method = ''POST'',
              req_body = chat_formData P now message history files\<rparr> = Inr r"
  shows "fst (sendChatMessage P now fetch url message history files) = Inr (chat_reply P t)
     \<and> (JSON_parse P t = None \<longrightarrow> chat_reply P t = Value (JStr t))
     \<and> (\<forall>kvs. JSON_parse P t = Some (JObj kvs) \<longrightarrow>
           chat_reply P t =
             Value (case first_truthy_field [''output'', ''text'', ''message''] (JObj kvs) of
                      Some v \<Rightarrow> v
                    | None \<Rightarrow> JStr (JSON_stringify P (JObj kvs))))
     \<and> (\<forall>s. JSON_parse P t = Some (JStr s) \<longrightarrow> chat_reply P t = Value (JStr s))"
proof (intro conjI allI impI)
  show "fst (sendChatMessage P now fetch url message history files) = Inr (chat_reply P t)"
    using assms by (rule sendChatMessage_ok)
next
  assume "JSON_parse P t = None"
  then show "chat_reply P t = Value (JStr t)" by (rule chat_reply_fallback)
next
  fix kvs
  assume "JSON_parse P t = Some (JObj kvs)"
  then show "chat_reply P t =
             Value (case first_truthy_field [''output'', ''text'', ''message''] (JObj kvs) of
                      Some v \<Rightarrow> v
                    | None \<Rightarrow> JStr (JSON_stringify P (JObj kvs)))"
    by (simp add: chat_reply_parsed)
next
  fix s
  assume "JSON_parse P t = Some (JStr s)"
  then show "chat_reply P t = Value (JStr s)"
    by (simp add: chat_reply_parsed first_truthy_field_def)
qed

theorem success_reply_witness:
  \<open>fst (sendChatMessage sample_platform sample_date
          (respond_with (Inr (status_200 ''{"output":"hello"}''))) sample_url ''hi'' [] [])
     = Inr (Value (JStr ''hello''))
   \<and> fst (sendChatMessage sample_platform sample_date
          (respond_with (Inr (status_200 ''plain text''))) sample_url ''hi'' [] [])
     = Inr (Value (JStr ''plain text''))
   \<and> fst (sendChatMessage sample_platform sample_date
          (respond_with (Inr (status_200 ''"plain"''))) sample_url ''hi'' [] [])
     = Inr (Value (JStr ''plain''))
   \<and> fst (sendChatMessage sample_platform sample_date
          (respond_with (Inr (status_200 ''{}''))) sample_url ''hi'' [] [])
     = Inr (Value (JStr ''{}''))\<close>
proof -
  have u: "truthy_value sample_url" by (simp add: sample_url_def)
  have k: "ok (status_200 t)" for t by (simp add: status_200_def)
  have b: "body_text (status_200 t) = Inr t" for t by (simp add: status_200_def)
  have f: "respond_with (Inr r) q = Inr r" for r q by (simp add: respond_with_def)
  note a1 = success_reply [where url = sample_url and t = \<open>''{"output":"hello"}''\<close>
      and r = \<open>status_200 ''{"output":"hello"}''\<close>
      and fetch = \<open>respond_with (Inr (status_200 ''{"output":"hello"}''))\<close>
      and P = sample_platform and now = sample_date and message = "''hi''"
      and history = "[]" and files = "[]", OF u k b f]
  note a2 = success_reply [where url = sample_url and t = \<open>''plain text''\<close>
      and r = \<open>status_200 ''plain text''\<close>
      and fetch = \<open>respond_with (Inr (status_200 ''plain text''))\<close>
      and P = sample_platform and now = sample_date and message = "''hi''"
      and history = "[]" and files = "[]", OF u k b f]
  note a3 = success_reply [where url = sample_url and t = \<open>''"plain"''\<close>
      and r = \<open>status_200 ''"plain"''\<close>
      and fetch = \<open>respond_with (Inr (status_200 ''"plain"''))\<close>
      and P = sample_platform and now = sample_date and message = "''hi''"
      and history = "[]" and files = "[]", OF u k b f]
  note a4 = success_reply [where url = sample_url and t = \<open>''{}''\<close>
      and r = \<open>status_200 ''{}''\<close>
      and fetch = \<open>respond_with (Inr (status_200 ''{}''))\<close>
      and P = sample_platform and now = sample_date and message = "''hi''"
      and history = "[]" and files = "[]", OF u k b f]
  from a1 a2 a3 a4 show ?thesis
    by (simp add: sample_platform_def table_platform_def first_truthy_field_def
          List.map_filter_def)
qed

text \<open>
  C4 as stated fails: in \<^verbatim>\<open>{"output":"","text":"hello"}\<close> the first candidate field that
  is present is \<^verbatim>\<open>output\<close>, holding the empty string, and the reply is \<^verbatim>\<open>hello\<close>.
\<close>

theorem success_reply_counterexample:
  \<open>JSON_parse sample_platform ''{"output":"","text":"hello"}''
       = Some (JObj [(''output'', JStr []), (''text'', JStr ''hello'')])
   \<and> first_present_field [''output'', ''text'', ''message'']
         (JObj [(''output'', JStr []), (''text'', JStr ''hello'')]) = Some (JStr [])
   \<and> fst (sendChatMessage sample_platform sample_date
          (respond_with (Inr (status_200 ''{"output":"","text":"hello"}'')))
          sample_url ''hi'' [] [])
       = Inr (Value (JStr ''hello''))
   \<and> Value (JStr ''hello'') \<noteq> Value (JStr [])\<close>
  by (simp add: run_defs first_present_field_def List.map_filter_def)


text \<open>
  C10. A candidate field that holds a falsy value is passed over like an absent one. For a
  body that parses to an object: when each of \<^verbatim>\<open>output\<close>, \<^verbatim>\<open>text\<close>, \<^verbatim>\<open>message\<close> is absent
  or falsy the reply is the JSON serialization of the whole object; a truthy \<^verbatim>\<open>text\<close> is the
  reply when \<^verbatim>\<open>output\<close> is absent or falsy, and a truthy \<^verbatim>\<open>message\<close> when both before it
  are; and on a failure response \<^verbatim>\<open>errorMessage\<close> and \<^verbatim>\<open>message\<close> are passed over the same
  way. The body \<^verbatim>\<open>{"output":""}\<close> of a 200 response is run below.
\<close>

theorem falsy_field_skipped:
  assumes "JSON_parse P t = Some (JObj kvs)"
  shows
    "((\<forall>k \<in> {''output'', ''text'', ''message''}. \<forall>u. map_of kvs k = Some u \<longrightarrow> \<not> truthy u) \<longrightarrow>
        chat_reply P t = Value (JStr (JSON_stringify P (JObj kvs))))
   \<and> (\<forall>v. (\<forall>u. map_of kvs ''output'' = Some u \<longrightarrow> \<not> truthy u) \<and>
            map_of kvs ''text'' = Some v \<and> truthy v \<longrightarrow> chat_reply P t = Value v)
   \<and> (\<forall>v. (\<forall>u. map_of kvs ''output'' = Some u \<longrightarrow> \<not> truthy u) \<and>
            (\<forall>u. map_of kvs ''text'' = Some u \<longrightarrow> \<not> truthy u) \<and>
            map_of kvs ''message'' = Some v \<and> truthy v \<longrightarrow> chat_reply P t = Value v)
   \<and> (body_text r = Inr t \<longrightarrow>
        ((\<forall>k \<in> {''errorMessage'', ''message''}. \<forall>u. map_of kvs k = Some u \<longrightarrow> \<not> truthy u) \<longrightarrow>
           failure P r = Error (JSON_stringify P (JObj kvs)))
      \<and> (\<forall>v. (\<forall>u. map_of kvs ''errorMessage'' = Some u \<longrightarrow> \<not> truthy u) \<and>
               map_of kvs ''message'' = Some v \<and> truthy v \<longrightarrow>
               failure P r = new_Error P (Value v)))"
proof (intro conjI allI impI)
  assume "\<forall>k \<in> {''output'', ''text'', ''message''}. \<forall>u. map_of kvs k = Some u \<longrightarrow> \<not> truthy u"
  then show "chat_reply P t = Value (JStr (JSON_stringify P (JObj kvs)))"
    using assms by (simp add: chat_reply_def split: option.splits)
next
  fix v
  assume "(\<forall>u. map_of kvs ''output'' = Some u \<longrightarrow> \<not> truthy u) \<and>
          map_of kvs ''text'' = Some v \<and> truthy v"
  then show "chat_reply P t = Value v"
    using assms by (simp add: chat_reply_def split: option.splits)
next
  fix v
  assume "(\<forall>u. map_of kvs ''output'' = Some u \<longrightarrow> \<not> truthy u) \<and>
          (\<forall>u. map_of kvs ''text'' = Some u \<longrightarrow> \<not> truthy u) \<and>
          map_of kvs ''message'' = Some v \<and> truthy v"
  then show "chat_reply P t = Value v"
    using assms by (simp add: chat_reply_def split: option.splits)
next
  assume "body_text r = Inr t"
    and "\<forall>k \<in> {''errorMessage'', ''message''}. \<forall>u. map_of kvs k = Some u \<longrightarrow> \<not> truthy u"
  then show "failure P r = Error (JSON_stringify P (JObj kvs))"
    using assms by (simp add: failure_def errorDesc_def split: option.splits)
next
  fix v
  assume "body_text r = Inr t"
    and "(\<forall>u. map_of kvs ''errorMessage'' = Some u \<longrightarrow> \<not> truthy u) \<and>
         map_of kvs ''message'' = Some v \<and> truthy v"
  then show "failure P r = new_Error P (Value v)"
    using assms by (simp add: failure_def errorDesc_def split: option.splits)
qed

theorem falsy_field_skipped_witness:
  \<open>JSON_parse sample_platform ''{"output":""}'' = Some (JObj [(''output'', JStr [])])
   \<and> chat_reply sample_platform ''{"output":""}'' = Value (JStr ''{"output":""}'')
   \<and> fst (sendChatMessage sample_platform sample_date
          (respond_with (Inr (status_200 ''{"output":""}''))) sample_url ''hi'' [] [])
       = Inr (Value (JStr ''{"output":""}''))
   \<and> failure sample_platform (status_500 ''{"errorMessage":"","message":"Workflow failed"}'')
       = Error ''Workflow failed''
   \<and> failure sample_platform (status_500 ''{"errorMessage":"","message":""}'')
       = Error ''{"errorMessage":"","message":""}''\<close>
proof -
  have p1: \<open>JSON_parse sample_platform ''{"output":""}'' = Some (JObj [(''output'', JStr [])])\<close>
    by (simp add: sample_platform_def table_platform_def)
  have p2: \<open>JSON_parse sample_platform ''{"errorMessage":"","message":"Workflow failed"}''
      = Some (JObj [(''errorMessage'', JStr []), (''message'', JStr ''Workflow failed'')])\<close>
    by (simp add: sample_platform_def table_platform_def)
  have p3: \<open>JSON_parse sample_platform ''{"errorMessage":"","message":""}''
      = Some (JObj [(''errorMessage'', JStr []), (''message'', JStr [])])\<close>
    by (simp add: sample_platform_def table_platform_def)
  note a = falsy_field_skipped [OF p1, of "status_200 []"]
  note b = falsy_field_skipped [OF p2,
      of \<open>status_500 ''{"errorMessage":"","message":"Workflow failed"}''\<close>]
  note c = falsy_field_skipped [OF p3,
      of \<open>status_500 ''{"errorMessage":"","message":""}''\<close>]
  have s: \<open>fst (sendChatMessage sample_platform sample_date
          (respond_with (Inr (status_200 ''{"output":""}''))) sample_url ''hi'' [] [])
       = Inr (chat_reply sample_platform ''{"output":""}'')\<close>
    by (simp add: sendChatMessage_def status_200_def sample_url_def respond_with_def Let_def)
  from a b c p1 s show ?thesis
    by (simp add: status_500_def sample_platform_def table_platform_def)
qed


section \<open>Conversation state\<close>

text \<open>
  C7, as the code has it. When the send fails, that is, the promise of
  \<^verbatim>\<open>sendChatMessage\<close> rejects with \<open>e\<close>, \<^verbatim>\<open>handleSendMessage\<close> hands over two updaters, and
  from every conversation state \<open>prev\<close> they lead to \<open>prev\<close> followed by the user message and
  one message of role assistant with \<^verbatim>\<open>isError\<close> true: nothing of \<open>prev\<close> or of the user
  message is lost or changed. The content of the error message is \<^verbatim>\<open>Error: \<close> followed by
  the error text and, when the error text contains \<^verbatim>\<open>Unused Respond to Webhook node\<close>, by
  two line feeds, the marker, a space and the advice.
\<close>

theorem failed_send_appends_error:
  assumes "fst (sendChatMessage P (now_session clk) fetch (chatUrl config) text messages attached)
             = Inl e"
  shows "fst (handleSendMessage P fetch clk config messages text attached)
           = [append_message (newUserMsg clk text attached), append_message (errorMsg clk e)]
     \<and> (\<forall>prev. apply_updaters (fst (handleSendMessage P fetch clk config messages text attached))
                  prev
                = prev @ [newUserMsg clk text attached, errorMsg clk e])
     \<and> role (newUserMsg clk text attached) = USER
     \<and> content (newUserMsg clk text attached) = Value (JStr text)
     \<and> role (errorMsg clk e) = ASSISTANT
     \<and> isError (errorMsg clk e) = Some True
     \<and> content (errorMsg clk e) =
         Value (JStr (''Error: '' @ errorMessage_of e @
           (case getN8nErrorAdvice (errorMessage_of e) of
              None \<Rightarrow> []
            | Some advice \<Rightarrow> [CHR 0x0A, CHR 0x0A] @ advice_marker @ '' '' @ advice)))
     \<and> (getN8nErrorAdvice (errorMessage_of e) \<noteq> None
          \<longleftrightarrow> str_includes (errorMessage_of e) ''Unused Respond to Webhook node'')"
  using assms
  by (simp add: handleSendMessage_def Let_def newUserMsg_def errorMsg_def displayMsg_def
        getN8nErrorAdvice_def apply_updaters_def append_message_def split: option.splits)

lemma sample_send_fails:
  "fst (sendChatMessage sample_platform (now_session sample_clock)
          (respond_with (Inl (Error ''Failed to fetch''))) (chatUrl DEFAULT_CONFIG) ''hi''
          sample_messages [])
     = Inl (Error ''Failed to fetch'')"
  by (simp add: sendChatMessage_def DEFAULT_CONFIG_def respond_with_def Let_def)

lemma sample_send_rejected:
  \<open>fst (sendChatMessage sample_platform (now_session sample_clock)
          (respond_with (Inr (status_500
             ''{"message":"Unused Respond to Webhook node found in the workflow"}'')))
          (chatUrl DEFAULT_CONFIG) ''hi'' sample_messages [])
     = Inl (Error ''Unused Respond to Webhook node found in the workflow'')\<close>
  by (simp add: run_defs DEFAULT_CONFIG_def)

theorem failed_send_appends_error_witness:
  \<open>apply_updaters (fst (handleSendMessage sample_platform
          (respond_with (Inl (Error ''Failed to fetch'')))
          sample_clock DEFAULT_CONFIG sample_messages ''hi'' [])) sample_messages
     = sample_messages @
       [\<lparr>msg_id = ''1793700000000'', role = USER, content = Value (JStr ''hi''),
         timestamp = 1793700000000, isError = None, attachments = Some []\<rparr>,
        \<lparr>msg_id = ''1793700000251'', role = ASSISTANT,
         content = Value (JStr ''Error: Failed to fetch''),
         timestamp = 1793700000250, isError = Some True, attachments = None\<rparr>]
   \<and> map content (apply_updaters (fst (handleSendMessage sample_platform
          (respond_with (Inr (status_500
             ''{"message":"Unused Respond to Webhook node found in the workflow"}'')))
          sample_clock DEFAULT_CONFIG sample_messages ''hi'' [])) [])
     = [Value (JStr ''hi''),
        Value (JStr (''Error: Unused Respond to Webhook node found in the workflow'' @
          [CHR 0x0A, CHR 0x0A] @ advice_marker @
          '' N8N CONFIG ERROR: Open your N8N Webhook Node and change '' @ [CHR 0x27] @
          ''Respond'' @ [CHR 0x27] @ '' to '' @ [CHR 0x27] @
          ''Using Respond to Webhook Node'' @ [CHR 0x27] @ ''.''))]\<close>
  using failed_send_appends_error [OF sample_send_fails]
    failed_send_appends_error [OF sample_send_rejected]
  by (simp add: newUserMsg_def errorMsg_def displayMsg_def errorMessage_of_def
        getN8nErrorAdvice_def sample_clock_def decimal.simps digit_def
        apply_updaters_def append_message_def)

text \<open>
  C7 as stated fails: the content of the error message is not the error text itself; for
  the error text \<^verbatim>\<open>bad node config\<close> it is \<^verbatim>\<open>Error: bad node config\<close>.
\<close>

theorem failed_send_appends_error_counterexample:
  \<open>fst (sendChatMessage sample_platform (now_session sample_clock)
          (respond_with (Inr (status_500 ''{"errorMessage":"bad node config"}'')))
          (chatUrl DEFAULT_CONFIG) ''hi'' [] [])
     = Inl (Error ''bad node config'')
   \<and> map content (apply_updaters (fst (handleSendMessage sample_platform
          (respond_with (Inr (status_500 ''{"errorMessage":"bad node config"}'')))
          sample_clock DEFAULT_CONFIG [] ''hi'' [])) [])
     = [Value (JStr ''hi''), Value (JStr ''Error: bad node config'')]
   \<and> Value (JStr ''Error: bad node config'') \<noteq> Value (JStr ''bad node config'')\<close>
  by (simp add: handleSendMessage_def run_defs DEFAULT_CONFIG_def newUserMsg_def errorMsg_def
        displayMsg_def errorMessage_of_def getN8nErrorAdvice_def apply_updaters_def
        append_message_def)

section \<open>Upload queue\<close>







section \<open>Loading the configuration\<close>

lemma config_of_parsed_truthy:
  "config_of_parsed parsed = Some c \<Longrightarrow> truthy_value (ingestionUrl c) \<and> truthy_value (chatUrl c)"
  by (cases parsed)
     (auto simp: config_of_parsed_def DEFAULT_CONFIG_def split: option.splits if_splits)

lemma DEFAULT_CONFIG_truthy:
  "truthy_value (ingestionUrl DEFAULT_CONFIG)" "truthy_value (chatUrl DEFAULT_CONFIG)"
  by (simp_all add: DEFAULT_CONFIG_def)

lemma config_of_parsed_object:
  "config_of_parsed (JObj kvs) =
     Some \<lparr>ingestionUrl = (case map_of kvs ''ingestionUrl'' of
                             Some v \<Rightarrow> if truthy v then Value v else ingestionUrl DEFAULT_CONFIG
                           | None \<Rightarrow> ingestionUrl DEFAULT_CONFIG),
           chatUrl = (case map_of kvs ''chatUrl'' of
                        Some v \<Rightarrow> if truthy v then Value v else chatUrl DEFAULT_CONFIG
                      | None \<Rightarrow> chatUrl DEFAULT_CONFIG)\<rparr>"
  by (simp add: config_of_parsed_def split: option.splits)

text \<open>
  C9. Loading the configuration is total: every exception of the \<^verbatim>\<open>try\<close> block is caught.
  For every stored value, both loaders (the application shell and the settings dialog)
  yield the same configuration, and both of its fields are truthy, hence never the empty
  string. The defaults are the two non-empty URLs of \<^verbatim>\<open>constants.ts\<close>. The result is the
  default configuration when no value is stored, when the stored text is empty, is not JSON
  or is \<^verbatim>\<open>null\<close>; and when the stored text parses to an object, each field that is missing or
  holds the empty string (or any falsy value) is replaced by its default.
\<close>

theorem load_config_defaults:
  "SettingsModal_load_config P stored = App_load_config P stored
   \<and> truthy_value (ingestionUrl (App_load_config P stored))
   \<and> truthy_value (chatUrl (App_load_config P stored))
   \<and> ingestionUrl DEFAULT_CONFIG = Value (JStr ''https://n8n.edutechnd.org/webhook/n8nchatbot'')
   \<and> chatUrl DEFAULT_CONFIG = Value (JStr ''https://n8n.edutechnd.org/webhook/n8nchatbot'')
   \<and> (stored = None \<or> stored = Some [] \<longrightarrow> App_load_config P stored = DEFAULT_CONFIG)
   \<and> (\<forall>s. stored = Some s \<and> (JSON_parse P s = None \<or> JSON_parse P s = Some JNull) \<longrightarrow>
         App_load_config P stored = DEFAULT_CONFIG)
   \<and> (\<forall>s kvs. stored = Some s \<and> s \<noteq> [] \<and> JSON_parse P s = Some (JObj kvs) \<longrightarrow>
         ingestionUrl (App_load_config P stored) =
           (case map_of kvs ''ingestionUrl'' of
              Some v \<Rightarrow> if truthy v then Value v else ingestionUrl DEFAULT_CONFIG
            | None \<Rightarrow> ingestionUrl DEFAULT_CONFIG)
       \<and> chatUrl (App_load_config P stored) =
           (case map_of kvs ''chatUrl'' of
              Some v \<Rightarrow> if truthy v then Value v else chatUrl DEFAULT_CONFIG
            | None \<Rightarrow> chatUrl DEFAULT_CONFIG))"
proof (intro conjI allI impI)
  show "SettingsModal_load_config P stored = App_load_config P stored"
    by (simp add: SettingsModal_load_config_def App_load_config_def split: option.splits)
  show "truthy_value (ingestionUrl (App_load_config P stored))"
    using config_of_parsed_truthy
    by (auto simp: App_load_config_def DEFAULT_CONFIG_truthy split: option.splits)
  show "truthy_value (chatUrl (App_load_config P stored))"
    using config_of_parsed_truthy
    by (auto simp: App_load_config_def DEFAULT_CONFIG_truthy split: option.splits)
  show "ingestionUrl DEFAULT_CONFIG = Value (JStr ''https://n8n.edutechnd.org/webhook/n8nchatbot'')"
    by (simp add: DEFAULT_CONFIG_def)
  show "chatUrl DEFAULT_CONFIG = Value (JStr ''https://n8n.edutechnd.org/webhook/n8nchatbot'')"
    by (simp add: DEFAULT_CONFIG_def)
next
  assume "stored = None \<or> stored = Some []"
  then show "App_load_config P stored = DEFAULT_CONFIG"
    by (auto simp: App_load_config_def)
next
  fix s
  assume "stored = Some s \<and> (JSON_parse P s = None \<or> JSON_parse P s = Some JNull)"
  then show "App_load_config P stored = DEFAULT_CONFIG"
    by (auto simp: App_load_config_def config_of_parsed_def)
next
  fix s kvs
  assume a: "stored = Some s \<and> s \<noteq> [] \<and> JSON_parse P s = Some (JObj kvs)"
  then show "ingestionUrl (App_load_config P stored) =
           (case map_of kvs ''ingestionUrl'' of
              Some v \<Rightarrow> if truthy v then Value v else ingestionUrl DEFAULT_CONFIG
            | None \<Rightarrow> ingestionUrl DEFAULT_CONFIG)"
    by (simp add: App_load_config_def config_of_parsed_object)
  from a show "chatUrl (App_load_config P stored) =
           (case map_of kvs ''chatUrl'' of
              Some v \<Rightarrow> if truthy v then Value v else chatUrl DEFAULT_CONFIG
            | None \<Rightarrow> chatUrl DEFAULT_CONFIG)"
    by (simp add: App_load_config_def config_of_parsed_object)
qed

theorem load_config_defaults_witness:
  \<open>App_load_config sample_platform
      (Some ''{"ingestionUrl":"","chatUrl":"https://my.n8n/webhook/chat"}'')
     = \<lparr>ingestionUrl = Value (JStr ''https://n8n.edutechnd.org/webhook/n8nchatbot''),
        chatUrl = Value (JStr ''https://my.n8n/webhook/chat'')\<rparr>
   \<and> SettingsModal_load_config sample_platform (Some ''{not json'') = DEFAULT_CONFIG
   \<and> App_load_config sample_platform (Some ''null'') = DEFAULT_CONFIG
   \<and> App_load_config sample_platform (Some ''{}'') = DEFAULT_CONFIG
   \<and> App_load_config sample_platform None = DEFAULT_CONFIG\<close>
  using load_config_defaults [of sample_platform
          \<open>Some ''{"ingestionUrl":"","chatUrl":"https://my.n8n/webhook/chat"}''\<close>]
        load_config_defaults [of sample_platform \<open>Some ''{not json''\<close>]
        load_config_defaults [of sample_platform \<open>Some ''null''\<close>]
        load_config_defaults [of sample_platform \<open>Some ''{}''\<close>]
        load_config_defaults [of sample_platform None]
  by (simp add: sample_platform_def table_platform_def DEFAULT_CONFIG_def
        App_load_config_def config_of_parsed_def)

end
